theory Spec2Isabelle
  imports Complex_Main
begin

section \<open>Python values of the parameter mapping\<close>

text \<open>
  The editor of \<^verbatim>\<open>widgets/preprocessors/emsc.py\<close> receives and produces plain Python
  dictionaries. Their values are modelled by \<open>pyval\<close>: \<^verbatim>\<open>None\<close>, booleans, unbounded
  integers, floats, lists, tuples and data tables. Floats are idealised as reals: rounding,
  infinities and NaN are not modelled, the overflow of a conversion is. A data table is the
  sequence of its rows.
\<close>

datatype error = TypeError | ValueError | OverflowError | IndexError

datatype pyval =
    PNone
  | PBool bool
  | PInt int
  | PFloat real
  | PList "pyval list"
  | PTuple "pyval list"
  | PTable "pyval list"

text \<open>Truth value of an object, as tested by \<^verbatim>\<open>if ranges:\<close>.\<close>

fun py_truthy :: "pyval \<Rightarrow> bool" where
  "py_truthy PNone = False"
| "py_truthy (PBool b) = b"
| "py_truthy (PInt i) = (i \<noteq> 0)"
| "py_truthy (PFloat x) = (x \<noteq> 0)"
| "py_truthy (PList xs) = (xs \<noteq> [])"
| "py_truthy (PTuple xs) = (xs \<noteq> [])"
| "py_truthy (PTable rows) = (rows \<noteq> [])"

text \<open>Iteration (\<^verbatim>\<open>for ... in v\<close>, \<^verbatim>\<open>enumerate(v)\<close>): only sequences can be iterated.\<close>

fun py_iter :: "pyval \<Rightarrow> error + pyval list" where
  "py_iter (PList xs) = Inr xs"
| "py_iter (PTuple xs) = Inr xs"
| "py_iter (PTable rows) = Inr rows"
| "py_iter v = Inl TypeError"

text \<open>
  The unpacking \<^verbatim>\<open>(rmin, rhigh, weight) = v\<close>: \<^verbatim>\<open>TypeError\<close> when \<open>v\<close> is not iterable,
  \<^verbatim>\<open>ValueError\<close> when it does not have exactly three items.
\<close>

definition unpack3 :: "pyval \<Rightarrow> error + (pyval \<times> pyval \<times> pyval)" where
  "unpack3 v =
     (case py_iter v of
        Inl e \<Rightarrow> Inl e
      | Inr [a, b, c] \<Rightarrow> Inr (a, b, c)
      | Inr _ \<Rightarrow> Inl ValueError)"

text \<open>
  The builtin \<^verbatim>\<open>float(v)\<close>. An integer is rounded to the nearest double, ties to even, and
  \<^verbatim>\<open>OverflowError\<close> is raised when the result would exceed the largest double
  \<open>2 ^ 1024 - 2 ^ 971\<close>, that is from \<open>2 ^ 1024 - 2 ^ 970\<close> on.
\<close>

definition float_overflow :: int where
  "float_overflow = 2 ^ 1024 - 2 ^ 970"

fun py_float :: "pyval \<Rightarrow> error + real" where
  "py_float (PFloat x) = Inr x"
| "py_float (PInt i) = (if float_overflow \<le> \<bar>i\<bar> then Inl OverflowError else Inr (of_int i))"
| "py_float (PBool b) = Inr (if b then 1 else 0)"
| "py_float v = Inl TypeError"

subsection \<open>Dictionaries\<close>

text \<open>
  A dictionary is an association list in insertion order; a key is looked up at its first
  entry. \<open>dict_get\<close> is \<^verbatim>\<open>d.get(k, default)\<close>, \<open>dict_set\<close> is \<^verbatim>\<open>d[k] = v\<close>, and a
  dictionary is true (\<^verbatim>\<open>if params:\<close>) when it is not empty.
\<close>

type_synonym dict = "(string \<times> pyval) list"

definition dict_get :: "dict \<Rightarrow> string \<Rightarrow> pyval \<Rightarrow> pyval" where
  "dict_get d k dflt = (case map_of d k of None \<Rightarrow> dflt | Some v \<Rightarrow> v)"

fun dict_set :: "dict \<Rightarrow> string \<Rightarrow> pyval \<Rightarrow> dict" where
  "dict_set [] k v = [(k, v)]"
| "dict_set ((k', v') # d) k v =
     (if k' = k then (k, v) # d else (k', v') # dict_set d k v)"

section \<open>The editor state\<close>

text \<open>
  The label \<^verbatim>\<open>reference_info\<close> shows one of three texts (or nothing, right after
  construction): \<^verbatim>\<open>Reference: missing!\<close>, \<^verbatim>\<open>Reference: 1 spectrum\<close>,
  \<^verbatim>\<open>Reference: mean of n spectra\<close>.
\<close>

datatype ref_info = Blank | Missing | One_spectrum | Mean_of nat

text \<open>
  \<open>ranges_box\<close> holds one entry per line of the container of ranges, in layout order:
  the \<^verbatim>\<open>position\<close> of the two \<^verbatim>\<open>XPosLineEdit\<close> widgets that \<^verbatim>\<open>_extract_pair\<close> returns
  for the line. \<open>order\<close>, \<open>scaling\<close> and \<open>output_model\<close> hold whatever was assigned to
  them last, of any type. The reference and the preview data are tables or
  \<^verbatim>\<open>None\<close>.
\<close>

record editor =
  reference :: "pyval list option"
  preview_data :: "pyval list option"
  order :: pyval
  scaling :: pyval
  output_model :: pyval
  ranges_box :: "(pyval \<times> pyval) list"
  user_changed :: bool
  reference_info :: ref_info
  reference_curve_visible :: bool

definition ORDER_DEFAULT :: pyval where
  "ORDER_DEFAULT = PInt 2"

definition SCALING_DEFAULT :: pyval where
  "SCALING_DEFAULT = PBool True"

definition OUTPUT_MODEL_DEFAULT :: pyval where
  "OUTPUT_MODEL_DEFAULT = PBool False"

text \<open>
  \<^verbatim>\<open>__init__\<close> binds \<open>order\<close> to a spin box (\<^verbatim>\<open>gui.spin\<close>) and \<open>scaling\<close> and
  \<open>output_model\<close> to check boxes (\<^verbatim>\<open>gui.checkBox\<close>). From then on an assignment to one of
  these attributes stores the value and then updates the control with it, and the update
  can raise; \<^verbatim>\<open>update_reference_info\<close> passes \<open>scaling\<close> to \<^verbatim>\<open>setVisible\<close> of the reference
  curve, which can raise too. The controls belong to the widget toolkit, not to this file:
  what they do with a value is a parameter. \<open>spin_setValue\<close> and \<open>checkBox_setState\<close>
  give the error raised, if any; \<open>curve_setVisible\<close> gives the error or the visibility that
  results.
\<close>

record controls =
  spin_setValue :: "pyval \<Rightarrow> error option"
  checkBox_setState :: "pyval \<Rightarrow> error option"
  curve_setVisible :: "pyval \<Rightarrow> error + bool"

text \<open>
  \<^verbatim>\<open>EMSCEditor.__init__\<close>. The three attributes get their defaults before the controls are
  created.
\<close>

definition EMSCEditor_init :: editor where
  "EMSCEditor_init =
     \<lparr>reference = None, preview_data = None,
      order = ORDER_DEFAULT, scaling = SCALING_DEFAULT, output_model = OUTPUT_MODEL_DEFAULT,
      ranges_box = [], user_changed = False,
      reference_info = Blank, reference_curve_visible = True\<rparr>"

text \<open>
  \<^verbatim>\<open>add_range_selection_ui\<close> appends a line with two new position edits to the container
  and returns the line, here its index. \<^verbatim>\<open>XPosLineEdit\<close> is not part of this file; a new
  edit is given the position 0, which both callers overwrite before anything reads it.
\<close>

definition add_range_selection_ui :: "editor \<Rightarrow> nat \<times> editor" where
  "add_range_selection_ui s =
     (length (ranges_box s), s\<lparr>ranges_box := ranges_box s @ [(PInt 0, PInt 0)]\<rparr>)"

text \<open>The two assignments \<^verbatim>\<open>pair[0].position = a; pair[1].position = b\<close> on line \<open>k\<close>.\<close>

definition set_positions :: "nat \<Rightarrow> pyval \<Rightarrow> pyval \<Rightarrow> editor \<Rightarrow> editor" where
  "set_positions k a b s = s\<lparr>ranges_box := (ranges_box s)[k := (a, b)]\<rparr>"

text \<open>
  \<^verbatim>\<open>add_range_selection\<close>, the slot of the button. \<^verbatim>\<open>preview_min_max\<close> comes from a mixin
  that is not part of this file and is a parameter.
\<close>

definition add_range_selection ::
  "(pyval list option \<Rightarrow> pyval \<times> pyval) \<Rightarrow> editor \<Rightarrow> editor" where
  "add_range_selection preview_min_max s =
     (let (pmin, pmax) = preview_min_max (preview_data s);
          (lw, s') = add_range_selection_ui s
      in set_positions lw pmin pmax s')"

text \<open>\<^verbatim>\<open>delete_range(box)\<close> removes line \<open>box\<close> from the container.\<close>

definition delete_range :: "nat \<Rightarrow> editor \<Rightarrow> editor" where
  "delete_range box s =
     s\<lparr>ranges_box := take box (ranges_box s) @ drop (Suc box) (ranges_box s)\<rparr>"

text \<open>
  The loop of \<^verbatim>\<open>_set_range_parameters\<close>. \<open>n\<close> is \<^verbatim>\<open>len(rw)\<close>, the number of lines when
  the method was entered, \<open>i\<close> the index that \<^verbatim>\<open>enumerate\<close> yields. The state changed so
  far stays changed when an item cannot be unpacked.
\<close>

fun set_range_loop ::
  "nat \<Rightarrow> nat \<Rightarrow> pyval list \<Rightarrow> editor \<Rightarrow> (error + unit) \<times> editor" where
  "set_range_loop n i [] s = (Inr (), s)"
| "set_range_loop n i (r # rs) s =
     (case unpack3 r of
        Inl e \<Rightarrow> (Inl e, s)
      | Inr (rmin, rhigh, weight) \<Rightarrow>
          (if i \<ge> n
           then (let (lw, s') = add_range_selection_ui s
                 in set_range_loop n (Suc i) rs (set_positions lw rmin rhigh s'))
           else set_range_loop n (Suc i) rs (set_positions i rmin rhigh s)))"

definition set_range_parameters :: "editor \<Rightarrow> dict \<Rightarrow> (error + unit) \<times> editor" where
  "set_range_parameters s params =
     (let ranges = dict_get params ''ranges'' (PList [])
      in case py_iter ranges of
           Inl e \<Rightarrow> (Inl e, s)
         | Inr items \<Rightarrow> set_range_loop (length (ranges_box s)) 0 items s)"

text \<open>
  \<^verbatim>\<open>update_reference_info\<close> sets the label and shows or hides the reference curve; the
  data of the curve is not modelled. With a reference the label is set first and
  \<^verbatim>\<open>setVisible(self.scaling)\<close> is the last statement.
\<close>

definition update_reference_info :: "controls \<Rightarrow> editor \<Rightarrow> (error + unit) \<times> editor" where
  "update_reference_info g s =
     (case reference s of
        None \<Rightarrow> (Inr (), s\<lparr>reference_info := Missing, reference_curve_visible := False\<rparr>)
      | Some rows \<Rightarrow>
          if rows = []
          then (Inr (), s\<lparr>reference_info := Missing, reference_curve_visible := False\<rparr>)
          else (let s' = s\<lparr>reference_info :=
                              (if length rows > 1 then Mean_of (length rows) else One_spectrum)\<rparr>
                in case curve_setVisible g (scaling s) of
                     Inl e \<Rightarrow> (Inl e, s')
                   | Inr b \<Rightarrow> (Inr (), s'\<lparr>reference_curve_visible := b\<rparr>)))"

text \<open>
  The assignments \<^verbatim>\<open>self.order = v\<close>, \<^verbatim>\<open>self.scaling = v\<close> and \<^verbatim>\<open>self.output_model = v\<close>:
  the value is stored, then the bound control is updated.
\<close>

definition assign_order :: "controls \<Rightarrow> pyval \<Rightarrow> editor \<Rightarrow> (error + unit) \<times> editor" where
  "assign_order g v s =
     (case spin_setValue g v of
        None \<Rightarrow> (Inr (), s\<lparr>order := v\<rparr>)
      | Some e \<Rightarrow> (Inl e, s\<lparr>order := v\<rparr>))"

definition assign_scaling :: "controls \<Rightarrow> pyval \<Rightarrow> editor \<Rightarrow> (error + unit) \<times> editor" where
  "assign_scaling g v s =
     (case checkBox_setState g v of
        None \<Rightarrow> (Inr (), s\<lparr>scaling := v\<rparr>)
      | Some e \<Rightarrow> (Inl e, s\<lparr>scaling := v\<rparr>))"

definition assign_output_model ::
  "controls \<Rightarrow> pyval \<Rightarrow> editor \<Rightarrow> (error + unit) \<times> editor" where
  "assign_output_model g v s =
     (case checkBox_setState g v of
        None \<Rightarrow> (Inr (), s\<lparr>output_model := v\<rparr>)
      | Some e \<Rightarrow> (Inl e, s\<lparr>output_model := v\<rparr>))"

text \<open>Sequencing: a statement that raises ends the method, with the state it left.\<close>

definition and_then ::
  "(error + unit) \<times> editor \<Rightarrow> (editor \<Rightarrow> (error + unit) \<times> editor)
     \<Rightarrow> (error + unit) \<times> editor" where
  "and_then r f = (case r of (Inl e, s) \<Rightarrow> (Inl e, s) | (Inr u, s) \<Rightarrow> f s)"

definition setParameters :: "controls \<Rightarrow> editor \<Rightarrow> dict \<Rightarrow> (error + unit) \<times> editor" where
  "setParameters g s params =
     and_then (assign_order g (dict_get params ''order'' ORDER_DEFAULT)
                 (if params \<noteq> [] then s\<lparr>user_changed := True\<rparr> else s))
       (\<lambda>s. and_then (assign_scaling g (dict_get params ''scaling'' SCALING_DEFAULT) s)
          (\<lambda>s. and_then
                  (assign_output_model g
                     (dict_get params ''output_model'' OUTPUT_MODEL_DEFAULT) s)
             (\<lambda>s. and_then (set_range_parameters s params)
                (\<lambda>s. update_reference_info g s))))"

text \<open>
  Modelled from the spec: \<^verbatim>\<open>BaseEditorOrange.parameters\<close>, the method of the base class
  that \<^verbatim>\<open>super().parameters()\<close> calls, is not part of this file. The spec describes the
  result of \<^verbatim>\<open>parameters()\<close> as a mapping with the keys \<^verbatim>\<open>order\<close>, \<^verbatim>\<open>scaling\<close>,
  \<^verbatim>\<open>output_model\<close> and \<^verbatim>\<open>ranges\<close> that mirrors the editor state; the base method gives the
  first three.
\<close>

definition base_parameters :: "editor \<Rightarrow> dict" where
  "base_parameters s =
     [(''order'', order s), (''scaling'', scaling s), (''output_model'', output_model s)]"

text \<open>
  The triple \<^verbatim>\<open>[float(pair[0].position), float(pair[1].position), 1.0]\<close> that
  \<^verbatim>\<open>parameters\<close> appends for one line: the weight is always \<^verbatim>\<open>1.0\<close>.
\<close>

definition range_triple :: "pyval \<times> pyval \<Rightarrow> error + pyval" where
  "range_triple pair =
     (case py_float (fst pair) of
        Inl e \<Rightarrow> Inl e
      | Inr a \<Rightarrow>
          (case py_float (snd pair) of
             Inl e \<Rightarrow> Inl e
           | Inr b \<Rightarrow> Inr (PList [PFloat a, PFloat b, PFloat 1])))"

text \<open>The loop of \<^verbatim>\<open>parameters\<close> over the lines; the first failing conversion raises.\<close>

fun range_triples :: "(pyval \<times> pyval) list \<Rightarrow> error + pyval list" where
  "range_triples [] = Inr []"
| "range_triples (pair # rows) =
     (case range_triple pair of
        Inl e \<Rightarrow> Inl e
      | Inr t \<Rightarrow>
          (case range_triples rows of
             Inl e \<Rightarrow> Inl e
           | Inr ts \<Rightarrow> Inr (t # ts)))"

definition parameters :: "editor \<Rightarrow> error + dict" where
  "parameters s =
     (case range_triples (ranges_box s) of
        Inl e \<Rightarrow> Inl e
      | Inr ts \<Rightarrow> Inr (dict_set (base_parameters s) ''ranges'' (PList ts)))"

section \<open>The factory\<close>

text \<open>
  \<^verbatim>\<open>ranges_to_weight_table\<close> belongs to the preprocessing module and is a parameter: it
  returns a weight table of some type \<open>'w\<close> or raises.
\<close>

definition compute_weights :: "(pyval \<Rightarrow> error + 'w) \<Rightarrow> dict \<Rightarrow> error + 'w option" where
  "compute_weights ranges_to_weight_table params =
     (let ranges = dict_get params ''ranges'' (PList [])
      in if py_truthy ranges
         then (case ranges_to_weight_table ranges of
                 Inl e \<Rightarrow> Inl e
               | Inr w \<Rightarrow> Inr (Some w))
         else Inr None)"

text \<open>The arguments an \<^verbatim>\<open>EMSC\<close> transform is constructed with.\<close>

record 'w emsc =
  emsc_reference :: pyval
  emsc_weights :: "'w option"
  emsc_order :: pyval
  emsc_scaling :: pyval
  emsc_output_model :: pyval

text \<open>
  What \<^verbatim>\<open>createinstance\<close> returns: the function \<^verbatim>\<open>lambda data: data[:0]\<close> or an \<^verbatim>\<open>EMSC\<close>
  object.
\<close>

datatype 'w transform = Lambda_empty | EMSC "'w emsc"

text \<open>
  The key \<^verbatim>\<open>REFERENCE_DATA_PARAM\<close> is imported from a module that is not part of this
  file and is a parameter.
\<close>

definition createinstance ::
  "string \<Rightarrow> (pyval \<Rightarrow> error + 'w) \<Rightarrow> dict \<Rightarrow> error + 'w transform" where
  "createinstance REFERENCE_DATA_PARAM ranges_to_weight_table params =
     (let order_arg = dict_get params ''order'' ORDER_DEFAULT;
          scaling_arg = dict_get params ''scaling'' SCALING_DEFAULT;
          output_model_arg = dict_get params ''output_model'' OUTPUT_MODEL_DEFAULT
      in case compute_weights ranges_to_weight_table params of
           Inl e \<Rightarrow> Inl e
         | Inr weights \<Rightarrow>
             (let ref = dict_get params REFERENCE_DATA_PARAM PNone
              in if ref = PNone then Inr Lambda_empty
                 else Inr (EMSC \<lparr>emsc_reference = ref, emsc_weights = weights,
                                 emsc_order = order_arg, emsc_scaling = scaling_arg,
                                 emsc_output_model = output_model_arg\<rparr>)))"

text \<open>
  Calling a transform on the rows of a data table. The call of an \<^verbatim>\<open>EMSC\<close> object is the
  numerical correction of the preprocessing module and is a parameter.
\<close>

fun apply_transform ::
  "('w emsc \<Rightarrow> pyval list \<Rightarrow> error + pyval list) \<Rightarrow> 'w transform \<Rightarrow> pyval list
     \<Rightarrow> error + pyval list" where
  "apply_transform emsc_call Lambda_empty data = Inr (take 0 data)"
| "apply_transform emsc_call (EMSC c) data = emsc_call c data"

section \<open>Other operations on the editor\<close>

definition set_reference_data ::
  "controls \<Rightarrow> pyval list option \<Rightarrow> editor \<Rightarrow> (error + unit) \<times> editor" where
  "set_reference_data g r s = update_reference_info g (s\<lparr>reference := r\<rparr>)"

text \<open>
  \<^verbatim>\<open>set_preview_data\<close> stores the data. It also sets the defaults of the validators of the
  position edits, which are not modelled, and assigns to the items of the temporary lists
  that \<^verbatim>\<open>_range_widgets\<close> yields, which changes no widget.
\<close>

definition set_preview_data :: "pyval list option \<Rightarrow> editor \<Rightarrow> editor" where
  "set_preview_data d s = s\<lparr>preview_data := d\<rparr>"

text \<open>
  The operations on an editor after its construction. The spin box of the order is created
  with \<^verbatim>\<open>minv=0, maxv=10\<close> and delivers a value in that range; the check boxes deliver
  booleans; a position edit delivers a float. A call that raises leaves the state it has
  reached.
\<close>

datatype event =
    Spin_order int
  | Check_scaling bool
  | Check_output_model bool
  | Add_range
  | Delete_range nat
  | Edit_min_position nat real
  | Edit_max_position nat real
  | Set_parameters dict
  | Set_reference_data "pyval list option"
  | Set_preview_data "pyval list option"

fun step ::
  "controls \<Rightarrow> (pyval list option \<Rightarrow> pyval \<times> pyval) \<Rightarrow> editor \<Rightarrow> event \<Rightarrow> editor" where
  "step g pmm s (Spin_order v) = s\<lparr>order := PInt (max 0 (min 10 v))\<rparr>"
| "step g pmm s (Check_scaling b) = s\<lparr>scaling := PBool b\<rparr>"
| "step g pmm s (Check_output_model b) = s\<lparr>output_model := PBool b\<rparr>"
| "step g pmm s Add_range = add_range_selection pmm s"
| "step g pmm s (Delete_range box) = delete_range box s"
| "step g pmm s (Edit_min_position k x) =
     (if k < length (ranges_box s)
      then set_positions k (PFloat x) (snd (ranges_box s ! k)) s else s)"
| "step g pmm s (Edit_max_position k x) =
     (if k < length (ranges_box s)
      then set_positions k (fst (ranges_box s ! k)) (PFloat x) s else s)"
| "step g pmm s (Set_parameters params) = snd (setParameters g s params)"
| "step g pmm s (Set_reference_data r) = snd (set_reference_data g r s)"
| "step g pmm s (Set_preview_data d) = set_preview_data d s"

fun run ::
  "controls \<Rightarrow> (pyval list option \<Rightarrow> pyval \<times> pyval) \<Rightarrow> editor \<Rightarrow> event list \<Rightarrow> editor" where
  "run g pmm s [] = s"
| "run g pmm s (e # es) = run g pmm (step g pmm s e) es"

section \<open>The controls and the conversion used in the examples\<close>

text \<open>
  The controls as the toolkit implements them. The spin box takes an integer that fits a C
  \<^verbatim>\<open>int\<close> (a boolean counts as one) and shows it clamped to its range; a float or another
  object is a \<^verbatim>\<open>TypeError\<close>, a larger integer an \<^verbatim>\<open>OverflowError\<close>. The check box looks its
  state up in a list of three states with the value as the index. Both leave the control
  alone for \<^verbatim>\<open>None\<close>. \<^verbatim>\<open>setVisible\<close> takes a boolean or an integer as a truth value and
  rejects \<^verbatim>\<open>None\<close> and other objects.
\<close>

fun qt_spin_setValue :: "pyval \<Rightarrow> error option" where
  "qt_spin_setValue PNone = None"
| "qt_spin_setValue (PBool b) = None"
| "qt_spin_setValue (PInt i) =
     (if - (2 ^ 31) \<le> i \<and> i < 2 ^ 31 then None else Some OverflowError)"
| "qt_spin_setValue v = Some TypeError"

fun qt_checkBox_setState :: "pyval \<Rightarrow> error option" where
  "qt_checkBox_setState PNone = None"
| "qt_checkBox_setState (PBool b) = None"
| "qt_checkBox_setState (PInt i) = (if - 3 \<le> i \<and> i \<le> 2 then None else Some IndexError)"
| "qt_checkBox_setState v = Some TypeError"

fun qt_setVisible :: "pyval \<Rightarrow> error + bool" where
  "qt_setVisible (PBool b) = Inr b"
| "qt_setVisible (PInt i) = Inr (i \<noteq> 0)"
| "qt_setVisible v = Inl TypeError"

definition qt_controls :: controls where
  "qt_controls =
     \<lparr>spin_setValue = qt_spin_setValue, checkBox_setState = qt_checkBox_setState,
      curve_setVisible = qt_setVisible\<rparr>"

text \<open>
  Modelled from the spec: \<^verbatim>\<open>ranges_to_weight_table\<close> is imported from the preprocessing
  module, which is not part of this file. The spec describes it as the conversion of a
  sequence of \<open>(min, max, weight)\<close> ranges into a weight table. It stays a parameter of
  every definition and theorem; where an example needs a conversion, this one is used. It
  stands for the table by the sequence of the ranges it was made from, and like every
  conversion of a sequence it raises \<^verbatim>\<open>TypeError\<close> for a value that cannot be iterated.
\<close>

definition ranges_to_weight_table :: "pyval \<Rightarrow> error + pyval list" where
  "ranges_to_weight_table ranges = py_iter ranges"

section \<open>Predicates used in the statements\<close>

text \<open>A value that \<^verbatim>\<open>float\<close> accepts.\<close>

definition is_number :: "pyval \<Rightarrow> bool" where
  "is_number v = (case py_float v of Inl e \<Rightarrow> False | Inr x \<Rightarrow> True)"

text \<open>The order is an integer between 0 and 10.\<close>

definition order_in_range :: "editor \<Rightarrow> bool" where
  "order_in_range s = (case order s of PInt i \<Rightarrow> 0 \<le> i \<and> i \<le> 10 | _ \<Rightarrow> False)"

text \<open>
  An event that is not a call of \<^verbatim>\<open>setParameters\<close>, or a call whose mapping has no
  \<^verbatim>\<open>order\<close> or an integer between 0 and 10 for it.
\<close>

fun supplies_order_in_range :: "event \<Rightarrow> bool" where
  "supplies_order_in_range (Set_parameters params) =
     (case map_of params ''order'' of
        None \<Rightarrow> True
      | Some (PInt i) \<Rightarrow> 0 \<le> i \<and> i \<le> 10
      | Some _ \<Rightarrow> False)"
| "supplies_order_in_range e = True"

section \<open>What \<^verbatim>\<open>setParameters\<close> leaves unchanged\<close>

lemma set_range_loop_frame:
  "snd (set_range_loop n i rs s) = s\<lparr>ranges_box := ranges_box (snd (set_range_loop n i rs s))\<rparr>"
proof (induction rs arbitrary: i s)
  case Nil
  show ?case by simp
next
  case (Cons r rs)
  show ?case
  proof (cases "unpack3 r")
    case (Inl e)
    then show ?thesis by simp
  next
    case (Inr t)
    obtain a b c where t: "t = (a, b, c)" by (cases t) auto
    show ?thesis
    proof (cases "n \<le> i")
      case True
      have "snd (set_range_loop n i (r # rs) s) =
            snd (set_range_loop n (Suc i) rs
                  (set_positions (length (ranges_box s)) a b
                     (s\<lparr>ranges_box := ranges_box s @ [(PInt 0, PInt 0)]\<rparr>)))"
        using Inr t True by (simp add: add_range_selection_ui_def)
      then show ?thesis
        using Cons.IH [of "Suc i" "set_positions (length (ranges_box s)) a b
                     (s\<lparr>ranges_box := ranges_box s @ [(PInt 0, PInt 0)]\<rparr>)"]
        by (simp add: set_positions_def)
    next
      case False
      have "snd (set_range_loop n i (r # rs) s) =
            snd (set_range_loop n (Suc i) rs (set_positions i a b s))"
        using Inr t False by simp
      then show ?thesis
        using Cons.IH [of "Suc i" "set_positions i a b s"]
        by (simp add: set_positions_def)
    qed
  qed
qed

lemma set_range_parameters_frame:
  "snd (set_range_parameters s params) =
     s\<lparr>ranges_box := ranges_box (snd (set_range_parameters s params))\<rparr>"
proof (cases "py_iter (dict_get params ''ranges'' (PList []))")
  case (Inl e)
  then show ?thesis by (simp add: set_range_parameters_def)
next
  case (Inr items)
  then show ?thesis
    using set_range_loop_frame [of "length (ranges_box s)" 0 items s]
    by (simp add: set_range_parameters_def)
qed

lemma set_range_parameters_keeps:
  "order (snd (set_range_parameters s params)) = order s"
  "scaling (snd (set_range_parameters s params)) = scaling s"
  "output_model (snd (set_range_parameters s params)) = output_model s"
  "user_changed (snd (set_range_parameters s params)) = user_changed s"
  "reference (snd (set_range_parameters s params)) = reference s"
  by (subst set_range_parameters_frame, simp)+

lemma update_reference_info_frame:
  "snd (update_reference_info g s) =
     s\<lparr>reference_info := reference_info (snd (update_reference_info g s)),
       reference_curve_visible := reference_curve_visible (snd (update_reference_info g s))\<rparr>"
  by (simp add: update_reference_info_def Let_def split: option.splits sum.splits)

lemma update_reference_info_keeps:
  "order (snd (update_reference_info g s)) = order s"
  "scaling (snd (update_reference_info g s)) = scaling s"
  "output_model (snd (update_reference_info g s)) = output_model s"
  "user_changed (snd (update_reference_info g s)) = user_changed s"
  "ranges_box (snd (update_reference_info g s)) = ranges_box s"
  "reference (snd (update_reference_info g s)) = reference s"
  by (subst update_reference_info_frame, simp)+

lemma update_reference_info_returns:
  "fst (update_reference_info g s) = Inr () \<longleftrightarrow>
     reference s = None \<or> reference s = Some [] \<or> (\<exists>b. curve_setVisible g (scaling s) = Inr b)"
  by (auto simp: update_reference_info_def Let_def split: option.splits sum.splits)

lemma and_then_fst:
  "fst (and_then r f) = (case fst r of Inl e \<Rightarrow> Inl e | Inr u \<Rightarrow> fst (f (snd r)))"
  by (cases r) (simp add: and_then_def split: sum.splits)

lemma and_then_snd:
  "snd (and_then r f) = (case fst r of Inl e \<Rightarrow> snd r | Inr u \<Rightarrow> snd (f (snd r)))"
  by (cases r) (simp add: and_then_def split: sum.splits)

text \<open>The tail of \<^verbatim>\<open>setParameters\<close>, from the handling of the ranges on.\<close>

lemma ranges_then_info_keeps:
  "order (snd (and_then (set_range_parameters t params) (update_reference_info g))) = order t"
  "scaling (snd (and_then (set_range_parameters t params) (update_reference_info g)))
     = scaling t"
  "output_model (snd (and_then (set_range_parameters t params) (update_reference_info g)))
     = output_model t"
  "user_changed (snd (and_then (set_range_parameters t params) (update_reference_info g)))
     = user_changed t"
  "ranges_box (snd (and_then (set_range_parameters t params) (update_reference_info g)))
     = ranges_box (snd (set_range_parameters t params))"
  by (simp_all add: and_then_snd set_range_parameters_keeps update_reference_info_keeps
        split: sum.splits)

text \<open>
  \<^verbatim>\<open>setParameters\<close> by the first control that rejects its value: the spin box, the check
  box of the scaling, the check box of the output model, or none of them.
\<close>

lemma setParameters_cases:
  "setParameters g s params =
     (let s0 = (if params \<noteq> [] then s\<lparr>user_changed := True\<rparr> else s);
          vo = dict_get params ''order'' ORDER_DEFAULT;
          vs = dict_get params ''scaling'' SCALING_DEFAULT;
          vm = dict_get params ''output_model'' OUTPUT_MODEL_DEFAULT
      in case spin_setValue g vo of
           Some e \<Rightarrow> (Inl e, s0\<lparr>order := vo\<rparr>)
         | None \<Rightarrow>
            (case checkBox_setState g vs of
               Some e \<Rightarrow> (Inl e, s0\<lparr>order := vo, scaling := vs\<rparr>)
             | None \<Rightarrow>
                (case checkBox_setState g vm of
                   Some e \<Rightarrow> (Inl e, s0\<lparr>order := vo, scaling := vs, output_model := vm\<rparr>)
                 | None \<Rightarrow>
                     and_then
                       (set_range_parameters
                          (s0\<lparr>order := vo, scaling := vs, output_model := vm\<rparr>) params)
                       (update_reference_info g))))"
  by (simp add: setParameters_def and_then_def assign_order_def assign_scaling_def
        assign_output_model_def Let_def split: option.splits)

lemma setParameters_fields:
  "user_changed (snd (setParameters g s params)) = (params \<noteq> [] \<or> user_changed s)"
  "order (snd (setParameters g s params)) = dict_get params ''order'' ORDER_DEFAULT"
  "scaling (snd (setParameters g s params)) =
     (if spin_setValue g (dict_get params ''order'' ORDER_DEFAULT) = None
      then dict_get params ''scaling'' SCALING_DEFAULT else scaling s)"
  "output_model (snd (setParameters g s params)) =
     (if spin_setValue g (dict_get params ''order'' ORDER_DEFAULT) = None
         \<and> checkBox_setState g (dict_get params ''scaling'' SCALING_DEFAULT) = None
      then dict_get params ''output_model'' OUTPUT_MODEL_DEFAULT else output_model s)"
  by (simp_all add: setParameters_cases Let_def ranges_then_info_keeps split: option.splits)

text \<open>The three controls take the values that \<open>params\<close> gives them.\<close>

lemma setParameters_accepted:
  assumes "spin_setValue g (dict_get params ''order'' ORDER_DEFAULT) = None"
    and "checkBox_setState g (dict_get params ''scaling'' SCALING_DEFAULT) = None"
    and "checkBox_setState g (dict_get params ''output_model'' OUTPUT_MODEL_DEFAULT) = None"
  shows "\<exists>t. ranges_box t = ranges_box s \<and> reference t = reference s
           \<and> scaling t = dict_get params ''scaling'' SCALING_DEFAULT
           \<and> setParameters g s params
               = and_then (set_range_parameters t params) (update_reference_info g)"
proof -
  let ?t = "(if params \<noteq> [] then s\<lparr>user_changed := True\<rparr> else s)
              \<lparr>order := dict_get params ''order'' ORDER_DEFAULT,
               scaling := dict_get params ''scaling'' SCALING_DEFAULT,
               output_model := dict_get params ''output_model'' OUTPUT_MODEL_DEFAULT\<rparr>"
  have "setParameters g s params
          = and_then (set_range_parameters ?t params) (update_reference_info g)"
    using assms by (simp add: setParameters_cases Let_def)
  moreover have "ranges_box ?t = ranges_box s \<and> reference ?t = reference s
      \<and> scaling ?t = dict_get params ''scaling'' SCALING_DEFAULT"
    by simp
  ultimately show ?thesis by blast
qed

text \<open>One of the controls rejects its value: the ranges are not reached.\<close>

lemma setParameters_rejected:
  assumes "\<not> (spin_setValue g (dict_get params ''order'' ORDER_DEFAULT) = None
      \<and> checkBox_setState g (dict_get params ''scaling'' SCALING_DEFAULT) = None
      \<and> checkBox_setState g (dict_get params ''output_model'' OUTPUT_MODEL_DEFAULT) = None)"
  shows "(\<exists>e. fst (setParameters g s params) = Inl e)
         \<and> ranges_box (snd (setParameters g s params)) = ranges_box s"
  using assms by (auto simp: setParameters_cases Let_def split: option.splits)

section \<open>What \<^verbatim>\<open>setParameters\<close> stores\<close>

text \<open>
  Claim C5, amended. For every mapping \<open>params\<close> and every editor, \<^verbatim>\<open>setParameters(params)\<close>
  sets \<^verbatim>\<open>user_changed\<close> to true when \<open>params\<close> is not empty and leaves it as it was when
  \<open>params\<close> is empty, and \<^verbatim>\<open>order\<close> becomes the value of its key, or the class default 2
  when the key is missing. \<^verbatim>\<open>scaling\<close> becomes the value of its key, or the default
  \<^verbatim>\<open>True\<close> when the key is missing, if the spin box accepts the order; \<^verbatim>\<open>output_model\<close>
  becomes the value of its key, or the default \<^verbatim>\<open>False\<close>, if moreover the check box
  accepts the scaling. An assignment whose control raises ends the call, and the
  attributes after it keep the value they had. This is the state the call leaves behind,
  whether or not it raises.
\<close>

theorem setParameters_user_changed_and_defaults:
  "user_changed (snd (setParameters g s params)) = (if params = [] then user_changed s else True)
   \<and> order (snd (setParameters g s params)) =
       (case map_of params ''order'' of None \<Rightarrow> PInt 2 | Some v \<Rightarrow> v)
   \<and> scaling (snd (setParameters g s params)) =
       (if spin_setValue g (case map_of params ''order'' of None \<Rightarrow> PInt 2 | Some v \<Rightarrow> v)
             = None
        then (case map_of params ''scaling'' of None \<Rightarrow> PBool True | Some v \<Rightarrow> v)
        else scaling s)
   \<and> output_model (snd (setParameters g s params)) =
       (if spin_setValue g (case map_of params ''order'' of None \<Rightarrow> PInt 2 | Some v \<Rightarrow> v)
             = None
           \<and> checkBox_setState g
                (case map_of params ''scaling'' of None \<Rightarrow> PBool True | Some v \<Rightarrow> v) = None
        then (case map_of params ''output_model'' of None \<Rightarrow> PBool False | Some v \<Rightarrow> v)
        else output_model s)"
  by (simp add: setParameters_fields dict_get_def ORDER_DEFAULT_def SCALING_DEFAULT_def
        OUTPUT_MODEL_DEFAULT_def)

theorem setParameters_user_changed_and_defaults_witness:
  "user_changed (snd (setParameters qt_controls EMSCEditor_init [(''scaling'', PBool False)]))
   \<and> \<not> user_changed (snd (setParameters qt_controls EMSCEditor_init []))
   \<and> order (snd (setParameters qt_controls EMSCEditor_init [(''scaling'', PBool False)]))
       = PInt 2
   \<and> scaling (snd (setParameters qt_controls EMSCEditor_init [(''scaling'', PBool False)]))
       = PBool False
   \<and> output_model (snd (setParameters qt_controls EMSCEditor_init [(''scaling'', PBool False)]))
       = PBool False
   \<and> scaling (snd (setParameters qt_controls EMSCEditor_init [])) = PBool True"
  using setParameters_user_changed_and_defaults
      [of qt_controls EMSCEditor_init "[(''scaling'', PBool False)]"]
    setParameters_user_changed_and_defaults [of qt_controls EMSCEditor_init "[]"]
  by (simp add: EMSCEditor_init_def qt_controls_def)

text \<open>
  The spin box rejects the float \<open>3.0\<close>: the scaling that an earlier call switched off is
  not replaced by its default, although the key is missing. The check box rejects the
  scaling 5: the output model of the mapping is not stored.
\<close>

theorem setParameters_aborted_counterexample:
  "map_of [(''order'', PFloat 3)] ''scaling'' = None
   \<and> scaling (snd (setParameters qt_controls
          (snd (setParameters qt_controls EMSCEditor_init [(''scaling'', PBool False)]))
          [(''order'', PFloat 3)])) = PBool False
   \<and> SCALING_DEFAULT = PBool True
   \<and> output_model (snd (setParameters qt_controls EMSCEditor_init
          [(''scaling'', PInt 5), (''output_model'', PBool True)])) = PBool False"
  by (simp add: setParameters_fields dict_get_def qt_controls_def EMSCEditor_init_def
        ORDER_DEFAULT_def SCALING_DEFAULT_def OUTPUT_MODEL_DEFAULT_def)

section \<open>The weights\<close>

text \<open>The values that are false as a condition.\<close>

lemma py_truthy_iff:
  "\<not> py_truthy v \<longleftrightarrow>
     v \<in> {PNone, PBool False, PInt 0, PFloat 0, PList [], PTuple [], PTable []}"
  by (cases v) auto

text \<open>
  Claim C4, amended. \<^verbatim>\<open>_compute_weights(params)\<close> returns \<^verbatim>\<open>None\<close> exactly when the key
  \<^verbatim>\<open>ranges\<close> is absent or maps to a value that is false as a condition (an empty
  sequence, but also \<^verbatim>\<open>None\<close>, \<^verbatim>\<open>False\<close> or zero); for every other value it returns what
  \<^verbatim>\<open>ranges_to_weight_table\<close> returns for that value, or raises what it raises.
\<close>

theorem compute_weights_cases:
  "(compute_weights r2w params = Inr None \<longleftrightarrow>
      (case map_of params ''ranges'' of None \<Rightarrow> True | Some v \<Rightarrow> \<not> py_truthy v))
   \<and> (\<forall>v. map_of params ''ranges'' = Some v \<and> py_truthy v \<longrightarrow>
          compute_weights r2w params =
            (case r2w v of Inl e \<Rightarrow> Inl e | Inr w \<Rightarrow> Inr (Some w)))"
  by (auto simp: compute_weights_def dict_get_def Let_def split: option.splits sum.splits)

theorem compute_weights_cases_witness:
  "compute_weights Inr [(''ranges'', PList [PTuple [PInt 1, PInt 2, PInt 1]])]
     = (Inr (Some (PList [PTuple [PInt 1, PInt 2, PInt 1]])) :: error + pyval option)
   \<and> compute_weights Inr [(''order'', PInt 3)] = (Inr None :: error + pyval option)"
  using compute_weights_cases [of Inr "[(''ranges'', PList [PTuple [PInt 1, PInt 2, PInt 1]])]"]
    compute_weights_cases [of "Inr :: pyval \<Rightarrow> error + pyval" "[(''order'', PInt 3)]"]
  by simp

theorem compute_weights_None_counterexample:
  "compute_weights Inr [(''ranges'', PNone)] = (Inr None :: error + pyval option)
   \<and> map_of [(''ranges'', PNone)] ''ranges'' = Some PNone
   \<and> PNone \<noteq> PList [] \<and> PNone \<noteq> PTuple [] \<and> PNone \<noteq> PTable []"
  by (simp add: compute_weights_def dict_get_def)

section \<open>The factory with and without a reference\<close>

text \<open>
  Claim C2, amended. \<^verbatim>\<open>createinstance(params)\<close> computes the weights before it looks at
  the reference. When the key of the reference data is absent from \<open>params\<close> or maps to
  \<^verbatim>\<open>None\<close>, and \<^verbatim>\<open>ranges\<close> is absent or false as a condition or \<^verbatim>\<open>ranges_to_weight_table\<close>
  returns for it, \<^verbatim>\<open>createinstance(params)\<close> returns the function
  \<^verbatim>\<open>lambda data: data[:0]\<close>, which gives a table with zero rows for every data table;
  when \<^verbatim>\<open>ranges_to_weight_table\<close> raises, \<^verbatim>\<open>createinstance\<close> raises the same error and
  returns no transform.
\<close>

theorem createinstance_no_reference:
  assumes "map_of params refkey = None \<or> map_of params refkey = Some PNone"
  shows "createinstance refkey r2w params =
           (if py_truthy (dict_get params ''ranges'' (PList []))
            then (case r2w (dict_get params ''ranges'' (PList [])) of
                    Inl e \<Rightarrow> Inl e
                  | Inr w \<Rightarrow> Inr Lambda_empty)
            else Inr Lambda_empty)
         \<and> apply_transform emsc_call Lambda_empty data = Inr []"
  using assms
  by (auto simp: createinstance_def compute_weights_def dict_get_def Let_def
        split: sum.splits option.splits)

theorem createinstance_no_reference_witness:
  "createinstance ''_reference_data'' ranges_to_weight_table
     [(''order'', PInt 3), (''_reference_data'', PNone)] = Inr Lambda_empty
   \<and> createinstance ''_reference_data'' ranges_to_weight_table
     [(''ranges'', PList [PTuple [PInt 1, PInt 2, PInt 1]])] = Inr Lambda_empty
   \<and> apply_transform (\<lambda>c d. Inr d) (Lambda_empty :: pyval list transform)
        [PTuple [PFloat 1], PTuple [PFloat 2]] = Inr []"
proof -
  let ?p = "[(''order'', PInt 3), (''_reference_data'', PNone)]"
  let ?q = "[(''ranges'', PList [PTuple [PInt 1, PInt 2, PInt 1]])]"
  have a: "map_of ?p ''_reference_data'' = None \<or> map_of ?p ''_reference_data'' = Some PNone"
    by simp
  have b: "map_of ?q ''_reference_data'' = None \<or> map_of ?q ''_reference_data'' = Some PNone"
    by simp
  show ?thesis
    using createinstance_no_reference [OF a, of ranges_to_weight_table]
      createinstance_no_reference [OF b, of ranges_to_weight_table "\<lambda>c d. Inr d"
        "[PTuple [PFloat 1], PTuple [PFloat 2]]"]
    by (simp add: dict_get_def ranges_to_weight_table_def)
qed

text \<open>
  No reference and the ranges 5: the conversion of the ranges raises before the reference
  is looked at, and no transform is returned.
\<close>

theorem createinstance_no_reference_counterexample:
  "map_of [(''ranges'', PInt 5)] ''_reference_data'' = None
   \<and> createinstance ''_reference_data'' ranges_to_weight_table [(''ranges'', PInt 5)]
       = Inl TypeError"
  by (simp add: createinstance_def compute_weights_def dict_get_def
        ranges_to_weight_table_def)

text \<open>
  Claim C3, amended. When \<open>params\<close> supplies a reference that is not \<^verbatim>\<open>None\<close>,
  \<^verbatim>\<open>createinstance(params)\<close> raises what \<^verbatim>\<open>_compute_weights(params)\<close> raises, and when
  \<^verbatim>\<open>_compute_weights(params)\<close> returns \<open>w\<close> it returns an \<^verbatim>\<open>EMSC\<close> transform constructed
  with that reference, with the weights \<open>w\<close>, and with \<^verbatim>\<open>order\<close>, \<^verbatim>\<open>scaling\<close> and
  \<^verbatim>\<open>output_model\<close> taken from \<open>params\<close>, or 2, \<^verbatim>\<open>True\<close> and \<^verbatim>\<open>False\<close> when the key is
  missing.
\<close>

theorem createinstance_with_reference:
  assumes "map_of params refkey = Some r" and "r \<noteq> PNone"
  shows "createinstance refkey r2w params =
           (case compute_weights r2w params of
              Inl e \<Rightarrow> Inl e
            | Inr w \<Rightarrow>
                Inr (EMSC \<lparr>emsc_reference = r, emsc_weights = w,
                      emsc_order = (case map_of params ''order'' of None \<Rightarrow> PInt 2 | Some v \<Rightarrow> v),
                      emsc_scaling =
                        (case map_of params ''scaling'' of None \<Rightarrow> PBool True | Some v \<Rightarrow> v),
                      emsc_output_model =
                        (case map_of params ''output_model'' of
                           None \<Rightarrow> PBool False | Some v \<Rightarrow> v)\<rparr>))"
  using assms
  by (simp add: createinstance_def dict_get_def Let_def ORDER_DEFAULT_def SCALING_DEFAULT_def
        OUTPUT_MODEL_DEFAULT_def split: sum.splits)

theorem createinstance_with_reference_witness:
  "createinstance ''_reference_data'' ranges_to_weight_table
     [(''order'', PInt 3), (''_reference_data'', PTable [PTuple [PFloat 1]]),
      (''ranges'', PList [PTuple [PInt 1, PInt 2, PInt 1]])]
   = Inr (EMSC \<lparr>emsc_reference = PTable [PTuple [PFloat 1]],
                 emsc_weights = Some [PTuple [PInt 1, PInt 2, PInt 1]],
                 emsc_order = PInt 3, emsc_scaling = PBool True,
                 emsc_output_model = PBool False\<rparr>)"
proof -
  let ?p = "[(''order'', PInt 3), (''_reference_data'', PTable [PTuple [PFloat 1]]),
      (''ranges'', PList [PTuple [PInt 1, PInt 2, PInt 1]])]"
  have a: "map_of ?p ''_reference_data'' = Some (PTable [PTuple [PFloat 1]])"
    by simp
  have b: "PTable [PTuple [PFloat 1]] \<noteq> PNone"
    by simp
  have c: "compute_weights ranges_to_weight_table ?p = Inr (Some [PTuple [PInt 1, PInt 2, PInt 1]])"
    by (simp add: compute_weights_def dict_get_def ranges_to_weight_table_def)
  show ?thesis
    using createinstance_with_reference [OF a b, of ranges_to_weight_table] c by simp
qed

text \<open>A reference and the ranges 5: the conversion raises and no transform is built.\<close>

theorem createinstance_with_reference_counterexample:
  "map_of [(''_reference_data'', PTable [PTuple [PFloat 1]]), (''ranges'', PInt 5)]
      ''_reference_data'' = Some (PTable [PTuple [PFloat 1]])
   \<and> PTable [PTuple [PFloat 1]] \<noteq> PNone
   \<and> createinstance ''_reference_data'' ranges_to_weight_table
        [(''_reference_data'', PTable [PTuple [PFloat 1]]), (''ranges'', PInt 5)]
       = Inl TypeError"
  by (simp add: createinstance_def compute_weights_def dict_get_def
        ranges_to_weight_table_def)

section \<open>The range of the order\<close>

lemma add_range_selection_keeps_order:
  "order (add_range_selection pmm s) = order s"
  by (simp add: add_range_selection_def add_range_selection_ui_def set_positions_def
        split: prod.splits)

lemma step_order_in_range:
  assumes "order_in_range s" and "supplies_order_in_range e"
  shows "order_in_range (step g pmm s e)"
proof (cases e)
  case (Spin_order v)
  then show ?thesis by (simp add: order_in_range_def)
next
  case (Set_parameters params)
  with assms(2) show ?thesis
    by (auto simp: order_in_range_def setParameters_fields dict_get_def ORDER_DEFAULT_def
          split: option.splits pyval.splits)
next
  case Add_range
  with assms(1) show ?thesis
    by (simp add: order_in_range_def add_range_selection_keeps_order)
next
  case (Set_reference_data r)
  with assms(1) show ?thesis
    by (simp add: order_in_range_def set_reference_data_def update_reference_info_keeps)
qed (use assms(1) in \<open>simp_all add: order_in_range_def delete_range_def set_positions_def
       set_preview_data_def\<close>)

lemma run_order_in_range:
  "order_in_range s \<Longrightarrow> \<forall>e \<in> set es. supplies_order_in_range e \<Longrightarrow>
     order_in_range (run g pmm s es)"
proof (induction es arbitrary: s)
  case Nil
  then show ?case by simp
next
  case (Cons e es)
  from Cons.prems have "order_in_range (step g pmm s e)"
    by (simp add: step_order_in_range)
  with Cons.prems have "order_in_range (run g pmm (step g pmm s e) es)"
    by (intro Cons.IH) simp_all
  then show ?case by simp
qed

lemma init_order_in_range: "order_in_range EMSCEditor_init"
  by (simp add: order_in_range_def EMSCEditor_init_def ORDER_DEFAULT_def)

text \<open>
  Claim C7, amended. After construction and after every sequence of operations in which
  each call of \<^verbatim>\<open>setParameters\<close> supplies no \<^verbatim>\<open>order\<close> or an integer between 0 and 10,
  the order of the editor is an integer between 0 and 10. \<^verbatim>\<open>setParameters\<close> itself
  stores the supplied order as it is, without a check of its type or range.
\<close>

theorem order_in_range_invariant:
  assumes "\<forall>e \<in> set es. supplies_order_in_range e"
  shows "order_in_range (run g pmm EMSCEditor_init es)"
  using init_order_in_range assms by (rule run_order_in_range)

theorem order_in_range_invariant_witness:
  "order_in_range (run qt_controls (\<lambda>d. (PFloat 0, PFloat 1)) EMSCEditor_init
        [Spin_order 15, Set_parameters [(''order'', PInt 7)], Check_scaling False])"
proof -
  have h: "\<forall>e \<in> set [Spin_order 15, Set_parameters [(''order'', PInt 7)], Check_scaling False].
      supplies_order_in_range e"
    by simp
  show ?thesis
    by (rule order_in_range_invariant [OF h])
qed

theorem order_out_of_range_counterexample:
  "order (snd (setParameters qt_controls EMSCEditor_init [(''order'', PInt 15)])) = PInt 15
   \<and> \<not> order_in_range (snd (setParameters qt_controls EMSCEditor_init [(''order'', PInt 15)]))"
  by (simp add: order_in_range_def setParameters_fields dict_get_def)


section \<open>The loop over the supplied ranges\<close>

lemma unpack3_cases:
  obtains (err) e where "unpack3 r = Inl e"
        | (ok) a b c where "unpack3 r = Inr (a, b, c)"
  by (cases "unpack3 r") auto

lemma set_range_loop_Cons_append:
  assumes "unpack3 r = Inr (a, b, c)" and "n \<le> i" and "length (ranges_box s) = i"
  shows "set_range_loop n i (r # rs) s =
           set_range_loop n (Suc i) rs (s\<lparr>ranges_box := ranges_box s @ [(a, b)]\<rparr>)"
  using assms by (simp add: add_range_selection_ui_def set_positions_def list_update_append)

lemma set_range_loop_Cons_update:
  assumes "unpack3 r = Inr (a, b, c)" and "i < n"
  shows "set_range_loop n i (r # rs) s =
           set_range_loop n (Suc i) rs (s\<lparr>ranges_box := (ranges_box s)[i := (a, b)]\<rparr>)"
  using assms by (simp add: set_positions_def)

lemma set_range_loop_surplus:
  assumes "length (ranges_box s) = max n i"
  shows "length (ranges_box s) \<le> length (ranges_box (snd (set_range_loop n i rs s)))
         \<and> length (ranges_box (snd (set_range_loop n i rs s))) \<le> max n (i + length rs)
         \<and> drop (i + length rs) (ranges_box (snd (set_range_loop n i rs s)))
             = drop (i + length rs) (ranges_box s)"
  using assms
proof (induction rs arbitrary: i s)
  case Nil
  then show ?case by simp
next
  case (Cons r rs)
  show ?case
  proof (cases r rule: unpack3_cases)
    case (err e)
    then show ?thesis using Cons.prems by simp
  next
    case (ok a b c)
    show ?thesis
    proof (cases "n \<le> i")
      case True
      with Cons.prems have len: "length (ranges_box s) = i" by simp
      let ?s = "s\<lparr>ranges_box := ranges_box s @ [(a, b)]\<rparr>"
      have "length (ranges_box ?s) = max n (Suc i)" using len True by simp
      from Cons.IH [OF this] show ?thesis
        using set_range_loop_Cons_append [OF ok True len, of rs] len by simp
    next
      case False
      then have lt: "i < n" by simp
      with Cons.prems have len: "length (ranges_box s) = n" by simp
      let ?s = "s\<lparr>ranges_box := (ranges_box s)[i := (a, b)]\<rparr>"
      have "length (ranges_box ?s) = max n (Suc i)" using len lt by simp
      from Cons.IH [OF this] show ?thesis
        using set_range_loop_Cons_update [OF ok lt, of rs s] len lt by simp
    qed
  qed
qed

lemma set_range_loop_ok:
  assumes "\<forall>r \<in> set rs. \<exists>t. unpack3 r = Inr t"
    and "length (ranges_box s) = max n i"
  shows "set_range_loop n i rs s =
           (Inr (), s\<lparr>ranges_box := take i (ranges_box s)
              @ map (\<lambda>r. (fst (projr (unpack3 r)), fst (snd (projr (unpack3 r))))) rs
              @ drop (i + length rs) (ranges_box s)\<rparr>)"
  using assms
proof (induction rs arbitrary: i s)
  case Nil
  then show ?case by simp
next
  case (Cons r rs)
  from Cons.prems(1) obtain a b c where ok: "unpack3 r = Inr (a, b, c)"
    by (cases r rule: unpack3_cases) auto
  from Cons.prems(1) have rest: "\<forall>r \<in> set rs. \<exists>t. unpack3 r = Inr t" by simp
  show ?case
  proof (cases "n \<le> i")
    case True
    with Cons.prems have len: "length (ranges_box s) = i" by simp
    let ?s = "s\<lparr>ranges_box := ranges_box s @ [(a, b)]\<rparr>"
    have "length (ranges_box ?s) = max n (Suc i)" using len True by simp
    from Cons.IH [OF rest this] show ?thesis
      using set_range_loop_Cons_append [OF ok True len, of rs] len ok by simp
  next
    case False
    then have lt: "i < n" by simp
    with Cons.prems have len: "length (ranges_box s) = n" by simp
    let ?s = "s\<lparr>ranges_box := (ranges_box s)[i := (a, b)]\<rparr>"
    have "length (ranges_box ?s) = max n (Suc i)" using len lt by simp
    from Cons.IH [OF rest this] show ?thesis
      using set_range_loop_Cons_update [OF ok lt, of rs s] len lt ok
      by (simp add: take_Suc_conv_app_nth)
  qed
qed

lemma set_range_parameters_iter:
  assumes "py_iter (dict_get params ''ranges'' (PList [])) = Inr rs"
  shows "set_range_parameters t params = set_range_loop (length (ranges_box t)) 0 rs t"
  using assms by (simp add: set_range_parameters_def)


lemma set_range_parameters_rows:
  "length (ranges_box t) \<le> length (ranges_box (snd (set_range_parameters t params)))
   \<and> (\<forall>rs. py_iter (dict_get params ''ranges'' (PList [])) = Inr rs
            \<and> length rs < length (ranges_box t) \<longrightarrow>
        length (ranges_box (snd (set_range_parameters t params))) = length (ranges_box t)
        \<and> drop (length rs) (ranges_box (snd (set_range_parameters t params)))
            = drop (length rs) (ranges_box t))"
proof (cases "py_iter (dict_get params ''ranges'' (PList []))")
  case (Inl e)
  then show ?thesis by (simp add: set_range_parameters_def)
next
  case (Inr rs)
  have "length (ranges_box t) = max (length (ranges_box t)) 0" by simp
  from set_range_loop_surplus [OF this, of rs] show ?thesis
    using set_range_parameters_iter [OF Inr, of t] Inr by auto
qed

lemma setParameters_rows:
  "length (ranges_box s) \<le> length (ranges_box (snd (setParameters g s params)))
   \<and> (\<forall>rs. py_iter (dict_get params ''ranges'' (PList [])) = Inr rs
            \<and> length rs < length (ranges_box s) \<longrightarrow>
        length (ranges_box (snd (setParameters g s params))) = length (ranges_box s)
        \<and> drop (length rs) (ranges_box (snd (setParameters g s params)))
            = drop (length rs) (ranges_box s))"
proof (cases "spin_setValue g (dict_get params ''order'' ORDER_DEFAULT) = None
      \<and> checkBox_setState g (dict_get params ''scaling'' SCALING_DEFAULT) = None
      \<and> checkBox_setState g (dict_get params ''output_model'' OUTPUT_MODEL_DEFAULT) = None")
  case True
  then obtain t where t: "ranges_box t = ranges_box s"
    and eq: "setParameters g s params
               = and_then (set_range_parameters t params) (update_reference_info g)"
    using setParameters_accepted [of g params s] by blast
  have "ranges_box (snd (setParameters g s params))
          = ranges_box (snd (set_range_parameters t params))"
    by (simp only: eq ranges_then_info_keeps)
  with set_range_parameters_rows [of t params] t show ?thesis by auto
next
  case False
  from setParameters_rejected [OF this, of s] show ?thesis by simp
qed

lemma range_triples_iff:
  "range_triples rows = Inr ts \<longleftrightarrow> list_all2 (\<lambda>p t. range_triple p = Inr t) rows ts"
proof (induction rows arbitrary: ts)
  case Nil
  show ?case by auto
next
  case (Cons p rows)
  show ?case
    by (cases ts) (auto simp: Cons.IH [symmetric] split: sum.splits)
qed

lemma map_of_dict_set: "map_of (dict_set d k v) k = Some v"
  by (induction d) auto

lemma parameters_ranges:
  assumes "parameters s = Inr d"
  shows "\<exists>ts. map_of d ''ranges'' = Some (PList ts)
           \<and> list_all2 (\<lambda>p t. range_triple p = Inr t) (ranges_box s) ts"
proof (cases "range_triples (ranges_box s)")
  case (Inl e)
  with assms show ?thesis by (simp add: parameters_def)
next
  case (Inr ts)
  with assms have "d = dict_set (base_parameters s) ''ranges'' (PList ts)"
    by (simp add: parameters_def)
  then have "map_of d ''ranges'' = Some (PList ts)"
    by (simp only: map_of_dict_set)
  with Inr show ?thesis by (auto simp: range_triples_iff)
qed

section \<open>Range lines are never removed by \<^verbatim>\<open>setParameters\<close>\<close>

text \<open>
  Claim C10. \<^verbatim>\<open>setParameters\<close> never removes a line of the container of ranges: it only
  overwrites the positions of existing lines or appends new ones. When it is called with
  a sequence of ranges that has fewer entries than there are lines, the number of lines
  stays the same, the surplus lines keep their min and max positions, and a following
  \<^verbatim>\<open>parameters()\<close> that returns lists the triples of those surplus lines after the
  supplied ones.
\<close>

theorem setParameters_never_deletes_rows:
  "length (ranges_box s) \<le> length (ranges_box (snd (setParameters g s params)))
   \<and> (\<forall>rs. py_iter (dict_get params ''ranges'' (PList [])) = Inr rs
            \<and> length rs < length (ranges_box s) \<longrightarrow>
        length (ranges_box (snd (setParameters g s params))) = length (ranges_box s)
        \<and> drop (length rs) (ranges_box (snd (setParameters g s params)))
            = drop (length rs) (ranges_box s)
        \<and> (\<forall>d. parameters (snd (setParameters g s params)) = Inr d \<longrightarrow>
             (\<exists>ts. map_of d ''ranges'' = Some (PList ts)
                \<and> length ts = length (ranges_box s)
                \<and> list_all2 (\<lambda>p t. range_triple p = Inr t)
                     (drop (length rs) (ranges_box s)) (drop (length rs) ts))))"
proof -
  let ?s' = "snd (setParameters g s params)"
  note rows = setParameters_rows [of s g params]
  from rows have grow: "length (ranges_box s) \<le> length (ranges_box ?s')"
    by (rule conjunct1)
  have surplus: "length (ranges_box ?s') = length (ranges_box s)
        \<and> drop (length rs) (ranges_box ?s') = drop (length rs) (ranges_box s)
        \<and> (\<forall>d. parameters ?s' = Inr d \<longrightarrow>
             (\<exists>ts. map_of d ''ranges'' = Some (PList ts)
                \<and> length ts = length (ranges_box s)
                \<and> list_all2 (\<lambda>p t. range_triple p = Inr t)
                     (drop (length rs) (ranges_box s)) (drop (length rs) ts)))"
    if it: "py_iter (dict_get params ''ranges'' (PList [])) = Inr rs"
      and less: "length rs < length (ranges_box s)" for rs
  proof -
    from rows it less
    have len: "length (ranges_box ?s') = length (ranges_box s)"
      and dr: "drop (length rs) (ranges_box ?s') = drop (length rs) (ranges_box s)"
      by simp_all
    have "\<exists>ts. map_of d ''ranges'' = Some (PList ts)
                \<and> length ts = length (ranges_box s)
                \<and> list_all2 (\<lambda>p t. range_triple p = Inr t)
                     (drop (length rs) (ranges_box s)) (drop (length rs) ts)"
      if "parameters ?s' = Inr d" for d
    proof -
      from parameters_ranges [OF that] obtain ts
        where m: "map_of d ''ranges'' = Some (PList ts)"
          and l: "list_all2 (\<lambda>p t. range_triple p = Inr t) (ranges_box ?s') ts"
        by blast
      from l have "length ts = length (ranges_box s)"
        using len by (simp add: list_all2_lengthD [symmetric])
      moreover from l have "list_all2 (\<lambda>p t. range_triple p = Inr t)
          (drop (length rs) (ranges_box ?s')) (drop (length rs) ts)"
        by (rule list_all2_dropI)
      ultimately show ?thesis using m dr by auto
    qed
    with len dr show ?thesis by blast
  qed
  from grow surplus show ?thesis by blast
qed

lemmas editor_eval =
  setParameters_cases set_range_parameters_def dict_get_def unpack3_def and_then_def
  add_range_selection_ui_def set_positions_def update_reference_info_def
  EMSCEditor_init_def parameters_def range_triple_def base_parameters_def
  ORDER_DEFAULT_def SCALING_DEFAULT_def OUTPUT_MODEL_DEFAULT_def Let_def
  qt_controls_def float_overflow_def

theorem setParameters_never_deletes_rows_witness:
  "length (ranges_box (snd (setParameters qt_controls
      (EMSCEditor_init\<lparr>ranges_box := [(PFloat 1, PFloat 2), (PFloat 3, PFloat 4)]\<rparr>)
      [(''ranges'', PList [PList [PFloat 7, PFloat 8, PFloat 1]])]))) = 2
   \<and> drop 1 (ranges_box (snd (setParameters qt_controls
      (EMSCEditor_init\<lparr>ranges_box := [(PFloat 1, PFloat 2), (PFloat 3, PFloat 4)]\<rparr>)
      [(''ranges'', PList [PList [PFloat 7, PFloat 8, PFloat 1]])])))
     = [(PFloat 3, PFloat 4)]"
proof -
  let ?s = "EMSCEditor_init\<lparr>ranges_box := [(PFloat 1, PFloat 2), (PFloat 3, PFloat 4)]\<rparr>"
  let ?p = "[(''ranges'', PList [PList [PFloat 7, PFloat 8, PFloat 1]])]"
  have h: "py_iter (dict_get ?p ''ranges'' (PList [])) = Inr [PList [PFloat 7, PFloat 8, PFloat 1]]
     \<and> length [PList [PFloat 7, PFloat 8, PFloat 1]] < length (ranges_box ?s)"
    by (simp add: dict_get_def)
  note r = setParameters_never_deletes_rows
    [of ?s qt_controls ?p, THEN conjunct2, THEN spec, THEN mp, OF h]
  from r [THEN conjunct1] r [THEN conjunct2, THEN conjunct1]
  show ?thesis by simp
qed

section \<open>The weight of the triples that \<^verbatim>\<open>parameters\<close> returns\<close>

lemma range_triple_weight:
  "range_triple p = Inr t \<Longrightarrow> \<exists>a b. t = PList [PFloat a, PFloat b, PFloat 1]"
  by (auto simp: range_triple_def split: sum.splits)

lemma range_triples_weight:
  assumes "list_all2 (\<lambda>p t. range_triple p = Inr t) rows ts" and "t \<in> set ts"
  shows "\<exists>a b. t = PList [PFloat a, PFloat b, PFloat 1]"
  using assms
proof (induction rows ts rule: list_all2_induct)
  case Nil
  then show ?case by simp
next
  case (Cons p rows u ts)
  then show ?case by (auto dest: range_triple_weight)
qed

lemma set_range_loop_weights:
  assumes "list_all2 (\<lambda>r r'. \<exists>a b w w'. unpack3 r = Inr (a, b, w) \<and> unpack3 r' = Inr (a, b, w'))
             rs rs'"
  shows "set_range_loop n i rs s = set_range_loop n i rs' s"
  using assms
proof (induction rs rs' arbitrary: i s rule: list_all2_induct)
  case Nil
  show ?case by simp
next
  case (Cons r rs r' rs')
  from Cons.hyps(1) obtain a b w w'
    where "unpack3 r = Inr (a, b, w)" and "unpack3 r' = Inr (a, b, w')"
    by blast
  then show ?case
    by (simp add: Cons.IH)
qed

lemma setParameters_ranges_cong:
  assumes "\<And>t. set_range_loop (length (ranges_box s)) 0 rs t
                = set_range_loop (length (ranges_box s)) 0 rs' t"
  shows "setParameters g s ((''ranges'', PList rs) # rest)
           = setParameters g s ((''ranges'', PList rs') # rest)"
proof -
  have g: "dict_get ((''ranges'', v) # rest) k d = dict_get rest k d"
    if "k \<noteq> ''ranges''" for v k d
    using that by (simp add: dict_get_def)
  have r: "dict_get ((''ranges'', v) # rest) ''ranges'' d = v" for v d
    by (simp add: dict_get_def)
  show ?thesis
    unfolding setParameters_def set_range_parameters_def assign_order_def assign_scaling_def
      assign_output_model_def and_then_def Let_def
    by (simp add: g r assms split: option.splits)
qed

text \<open>
  Claim C8. Every triple in the \<^verbatim>\<open>ranges\<close> of the mapping that \<^verbatim>\<open>parameters()\<close> returns has
  the weight \<^verbatim>\<open>1.0\<close>, in every state of the editor. The weights supplied to
  \<^verbatim>\<open>setParameters\<close> are ignored: two sequences of ranges that differ only in their
  weights give the same outcome and the same editor.
\<close>

theorem parameters_weight_is_one:
  "(\<forall>d. parameters s = Inr d \<longrightarrow>
      (\<exists>ts. map_of d ''ranges'' = Some (PList ts)
         \<and> (\<forall>t \<in> set ts. \<exists>a b. t = PList [PFloat a, PFloat b, PFloat 1])))
   \<and> (list_all2 (\<lambda>r r'. \<exists>a b w w'. unpack3 r = Inr (a, b, w) \<and> unpack3 r' = Inr (a, b, w'))
         rs rs' \<longrightarrow>
       setParameters g s ((''ranges'', PList rs) # rest)
         = setParameters g s ((''ranges'', PList rs') # rest))"
proof (intro conjI allI impI)
  fix d
  assume "parameters s = Inr d"
  from parameters_ranges [OF this] obtain ts
    where m: "map_of d ''ranges'' = Some (PList ts)"
      and l: "list_all2 (\<lambda>p t. range_triple p = Inr t) (ranges_box s) ts"
    by blast
  from l have "\<forall>t \<in> set ts. \<exists>a b. t = PList [PFloat a, PFloat b, PFloat 1]"
    by (blast intro: range_triples_weight)
  with m show "\<exists>ts. map_of d ''ranges'' = Some (PList ts)
         \<and> (\<forall>t \<in> set ts. \<exists>a b. t = PList [PFloat a, PFloat b, PFloat 1])"
    by blast
next
  assume "list_all2 (\<lambda>r r'. \<exists>a b w w'. unpack3 r = Inr (a, b, w) \<and> unpack3 r' = Inr (a, b, w'))
         rs rs'"
  then show "setParameters g s ((''ranges'', PList rs) # rest)
         = setParameters g s ((''ranges'', PList rs') # rest)"
    by (intro setParameters_ranges_cong set_range_loop_weights)
qed

theorem parameters_weight_is_one_witness:
  "parameters (snd (setParameters qt_controls EMSCEditor_init
       [(''ranges'', PList [PList [PInt 1, PInt 2, PFloat 5]])]))
     = Inr [(''order'', PInt 2), (''scaling'', PBool True), (''output_model'', PBool False),
            (''ranges'', PList [PList [PFloat 1, PFloat 2, PFloat 1]])]
   \<and> setParameters qt_controls EMSCEditor_init [(''ranges'', PList [PList [PInt 1, PInt 2, PFloat 5]])]
       = setParameters qt_controls EMSCEditor_init [(''ranges'', PList [PList [PInt 1, PInt 2, PFloat 1]])]"
proof -
  have p: "parameters (snd (setParameters qt_controls EMSCEditor_init
       [(''ranges'', PList [PList [PInt 1, PInt 2, PFloat 5]])]))
     = Inr [(''order'', PInt 2), (''scaling'', PBool True), (''output_model'', PBool False),
            (''ranges'', PList [PList [PFloat 1, PFloat 2, PFloat 1]])]"
    by (simp add: editor_eval)
  have u: "unpack3 (PList [PInt 1, PInt 2, PFloat 5]) = Inr (PInt 1, PInt 2, PFloat 5)
     \<and> unpack3 (PList [PInt 1, PInt 2, PFloat 1]) = Inr (PInt 1, PInt 2, PFloat 1)"
    by (simp add: unpack3_def)
  then have "\<exists>a b w w'. unpack3 (PList [PInt 1, PInt 2, PFloat 5]) = Inr (a, b, w)
     \<and> unpack3 (PList [PInt 1, PInt 2, PFloat 1]) = Inr (a, b, w')"
    by blast
  then have h: "list_all2
      (\<lambda>r r'. \<exists>a b w w'. unpack3 r = Inr (a, b, w) \<and> unpack3 r' = Inr (a, b, w'))
      [PList [PInt 1, PInt 2, PFloat 5]] [PList [PInt 1, PInt 2, PFloat 1]]"
    by (simp only: list_all2_Cons list_all2_Nil simp_thms)
  note r = parameters_weight_is_one
    [of EMSCEditor_init "[PList [PInt 1, PInt 2, PFloat 5]]"
        "[PList [PInt 1, PInt 2, PFloat 1]]" qt_controls "[]", THEN conjunct2, THEN mp, OF h]
  from p r show ?thesis by (rule conjI)
qed

section \<open>When the codec raises\<close>

lemma set_range_loop_returns:
  "fst (set_range_loop n i rs s) = Inr () \<longleftrightarrow> (\<forall>r \<in> set rs. \<exists>a b w. unpack3 r = Inr (a, b, w))"
proof (induction rs arbitrary: i s)
  case Nil
  show ?case by simp
next
  case (Cons r rs)
  show ?case
  proof (cases r rule: unpack3_cases)
    case (err e)
    then show ?thesis by simp
  next
    case (ok a b c)
    then show ?thesis
      by (simp add: Cons.IH split: prod.splits)
  qed
qed

lemma set_range_parameters_returns:
  "fst (set_range_parameters t params) = Inr () \<longleftrightarrow>
     (\<exists>rs. py_iter (dict_get params ''ranges'' (PList [])) = Inr rs
        \<and> (\<forall>r \<in> set rs. \<exists>a b w. unpack3 r = Inr (a, b, w)))"
proof (cases "py_iter (dict_get params ''ranges'' (PList []))")
  case (Inl e)
  then show ?thesis by (simp add: set_range_parameters_def)
next
  case (Inr rs)
  then show ?thesis
    by (simp add: set_range_parameters_iter [OF Inr] set_range_loop_returns)
qed

lemma sum_case_returns:
  "(case a of Inl e \<Rightarrow> Inl e | Inr u \<Rightarrow> b) = Inr () \<longleftrightarrow> a = Inr () \<and> b = Inr ()"
  by (cases a) auto

lemma setParameters_returns:
  "fst (setParameters g s params) = Inr () \<longleftrightarrow>
     spin_setValue g (dict_get params ''order'' ORDER_DEFAULT) = None
     \<and> checkBox_setState g (dict_get params ''scaling'' SCALING_DEFAULT) = None
     \<and> checkBox_setState g (dict_get params ''output_model'' OUTPUT_MODEL_DEFAULT) = None
     \<and> (\<exists>rs. py_iter (dict_get params ''ranges'' (PList [])) = Inr rs
          \<and> (\<forall>r \<in> set rs. \<exists>a b w. unpack3 r = Inr (a, b, w)))
     \<and> (reference s = None \<or> reference s = Some []
          \<or> (\<exists>b. curve_setVisible g (dict_get params ''scaling'' SCALING_DEFAULT) = Inr b))"
proof (cases "spin_setValue g (dict_get params ''order'' ORDER_DEFAULT) = None
      \<and> checkBox_setState g (dict_get params ''scaling'' SCALING_DEFAULT) = None
      \<and> checkBox_setState g (dict_get params ''output_model'' OUTPUT_MODEL_DEFAULT) = None")
  case True
  then obtain t where ref: "reference t = reference s"
    and sc: "scaling t = dict_get params ''scaling'' SCALING_DEFAULT"
    and eq: "setParameters g s params
               = and_then (set_range_parameters t params) (update_reference_info g)"
    using setParameters_accepted [of g params s] by blast
  have "fst (setParameters g s params) = Inr () \<longleftrightarrow>
          fst (set_range_parameters t params) = Inr ()
          \<and> fst (update_reference_info g (snd (set_range_parameters t params))) = Inr ()"
    by (simp only: eq and_then_fst sum_case_returns)
  then show ?thesis
    using True
    by (simp add: set_range_parameters_returns update_reference_info_returns
          set_range_parameters_keeps ref sc)
next
  case False
  from setParameters_rejected [OF this, of s] False show ?thesis by auto
qed

lemma range_triple_returns:
  "(\<exists>t. range_triple p = Inr t) \<longleftrightarrow> is_number (fst p) \<and> is_number (snd p)"
  by (auto simp: range_triple_def is_number_def split: sum.splits)

lemma range_triples_returns:
  "(\<exists>ts. range_triples rows = Inr ts) \<longleftrightarrow>
     (\<forall>p \<in> set rows. is_number (fst p) \<and> is_number (snd p))"
proof (induction rows)
  case Nil
  show ?case by simp
next
  case (Cons p rows)
  have "(\<exists>ts. range_triples (p # rows) = Inr ts) \<longleftrightarrow>
          (\<exists>t. range_triple p = Inr t) \<and> (\<exists>ts. range_triples rows = Inr ts)"
    by (auto split: sum.splits)
  then show ?case
    by (simp add: Cons.IH range_triple_returns)
qed

lemma parameters_returns:
  "(\<exists>d. parameters s = Inr d) \<longleftrightarrow>
     (\<forall>p \<in> set (ranges_box s). is_number (fst p) \<and> is_number (snd p))"
proof -
  have "(\<exists>d. parameters s = Inr d) \<longleftrightarrow> (\<exists>ts. range_triples (ranges_box s) = Inr ts)"
    by (auto simp: parameters_def split: sum.splits)
  then show ?thesis by (simp only: range_triples_returns)
qed

lemma compute_weights_returns:
  "(\<exists>w. compute_weights r2w params = Inr w) \<longleftrightarrow>
     (\<not> py_truthy (dict_get params ''ranges'' (PList []))
      \<or> (\<exists>w. r2w (dict_get params ''ranges'' (PList [])) = Inr w))"
  by (auto simp: compute_weights_def Let_def split: sum.splits)

lemma createinstance_returns:
  "(\<exists>t. createinstance refkey r2w params = Inr t) \<longleftrightarrow> (\<exists>w. compute_weights r2w params = Inr w)"
  by (auto simp: createinstance_def Let_def split: sum.splits)

text \<open>
  Claim C6, amended. Only an absent key falls back to its default; no value is checked
  and no error is caught. \<^verbatim>\<open>setParameters(params)\<close> returns without an error exactly when
  the spin box accepts the order, the check boxes accept the scaling and the output
  model, \<^verbatim>\<open>ranges\<close> (the empty list when absent) can be iterated and each of its entries
  unpacks into three items, and, if the editor has a reference that is not empty,
  \<^verbatim>\<open>setVisible\<close> accepts the scaling. \<^verbatim>\<open>parameters()\<close> returns exactly when the min and the
  max position of every range line are values that \<^verbatim>\<open>float\<close> accepts.
  \<^verbatim>\<open>_compute_weights(params)\<close> and \<^verbatim>\<open>createinstance(params)\<close> return exactly when \<^verbatim>\<open>ranges\<close>
  is absent or false as a condition or \<^verbatim>\<open>ranges_to_weight_table\<close> returns for it. In
  every other case the method raises.
\<close>

theorem codec_returns_iff:
  "(fst (setParameters g s params) = Inr () \<longleftrightarrow>
      spin_setValue g (dict_get params ''order'' (PInt 2)) = None
      \<and> checkBox_setState g (dict_get params ''scaling'' (PBool True)) = None
      \<and> checkBox_setState g (dict_get params ''output_model'' (PBool False)) = None
      \<and> (\<exists>rs. py_iter (dict_get params ''ranges'' (PList [])) = Inr rs
           \<and> (\<forall>r \<in> set rs. \<exists>a b w. unpack3 r = Inr (a, b, w)))
      \<and> (reference s = None \<or> reference s = Some []
           \<or> (\<exists>b. curve_setVisible g (dict_get params ''scaling'' (PBool True)) = Inr b)))
   \<and> ((\<exists>d. parameters s = Inr d) \<longleftrightarrow>
        (\<forall>p \<in> set (ranges_box s). is_number (fst p) \<and> is_number (snd p)))
   \<and> ((\<exists>w. compute_weights r2w params = Inr w) \<longleftrightarrow>
        (\<not> py_truthy (dict_get params ''ranges'' (PList []))
         \<or> (\<exists>w. r2w (dict_get params ''ranges'' (PList [])) = Inr w)))
   \<and> ((\<exists>t. createinstance refkey r2w params = Inr t) \<longleftrightarrow>
        (\<not> py_truthy (dict_get params ''ranges'' (PList []))
         \<or> (\<exists>w. r2w (dict_get params ''ranges'' (PList [])) = Inr w)))"
proof (intro conjI)
  show "fst (setParameters g s params) = Inr () \<longleftrightarrow>
      spin_setValue g (dict_get params ''order'' (PInt 2)) = None
      \<and> checkBox_setState g (dict_get params ''scaling'' (PBool True)) = None
      \<and> checkBox_setState g (dict_get params ''output_model'' (PBool False)) = None
      \<and> (\<exists>rs. py_iter (dict_get params ''ranges'' (PList [])) = Inr rs
           \<and> (\<forall>r \<in> set rs. \<exists>a b w. unpack3 r = Inr (a, b, w)))
      \<and> (reference s = None \<or> reference s = Some []
           \<or> (\<exists>b. curve_setVisible g (dict_get params ''scaling'' (PBool True)) = Inr b))"
    using setParameters_returns [of g s params]
    unfolding ORDER_DEFAULT_def SCALING_DEFAULT_def OUTPUT_MODEL_DEFAULT_def .
next
  show "(\<exists>d. parameters s = Inr d) \<longleftrightarrow>
        (\<forall>p \<in> set (ranges_box s). is_number (fst p) \<and> is_number (snd p))"
    by (rule parameters_returns)
next
  show "(\<exists>w. compute_weights r2w params = Inr w) \<longleftrightarrow>
        (\<not> py_truthy (dict_get params ''ranges'' (PList []))
         \<or> (\<exists>w. r2w (dict_get params ''ranges'' (PList [])) = Inr w))"
    by (rule compute_weights_returns)
next
  show "(\<exists>t. createinstance refkey r2w params = Inr t) \<longleftrightarrow>
        (\<not> py_truthy (dict_get params ''ranges'' (PList []))
         \<or> (\<exists>w. r2w (dict_get params ''ranges'' (PList [])) = Inr w))"
    by (simp only: createinstance_returns compute_weights_returns)
qed

theorem codec_returns_iff_witness:
  "fst (setParameters qt_controls EMSCEditor_init
          [(''ranges'', PTuple [PTuple [PInt 1, PFloat 2, PInt 1]])]) = Inr ()
   \<and> (\<exists>d. parameters (EMSCEditor_init\<lparr>ranges_box := [(PInt 1, PFloat 2)]\<rparr>) = Inr d)
   \<and> (\<exists>w. compute_weights ranges_to_weight_table
              [(''ranges'', PTuple [PTuple [PInt 1, PFloat 2, PInt 1]])] = Inr w)
   \<and> (\<exists>t. createinstance ''_reference_data'' ranges_to_weight_table
              [(''ranges'', PTuple [PTuple [PInt 1, PFloat 2, PInt 1]])] = Inr t)"
proof -
  let ?p = "[(''ranges'', PTuple [PTuple [PInt 1, PFloat 2, PInt 1]])]"
  let ?s = "EMSCEditor_init\<lparr>ranges_box := [(PInt 1, PFloat 2)]\<rparr>"
  note r = codec_returns_iff
    [of qt_controls EMSCEditor_init ?p ranges_to_weight_table "''_reference_data''"]
  note r' = codec_returns_iff
    [of qt_controls ?s ?p ranges_to_weight_table "''_reference_data''"]
  have u: "unpack3 (PTuple [PInt 1, PFloat 2, PInt 1]) = Inr (PInt 1, PFloat 2, PInt 1)"
    by (simp add: unpack3_def)
  have a: "fst (setParameters qt_controls EMSCEditor_init ?p) = Inr ()"
    by (rule r [THEN conjunct1, THEN iffD2])
      (simp add: dict_get_def qt_controls_def EMSCEditor_init_def u)
  have b: "\<exists>d. parameters ?s = Inr d"
    by (rule r' [THEN conjunct2, THEN conjunct1, THEN iffD2])
      (simp add: is_number_def float_overflow_def)
  have c: "\<exists>w. compute_weights ranges_to_weight_table ?p = Inr w"
    by (rule r [THEN conjunct2, THEN conjunct2, THEN conjunct1, THEN iffD2])
      (simp add: dict_get_def ranges_to_weight_table_def)
  have d: "\<exists>t. createinstance ''_reference_data'' ranges_to_weight_table ?p = Inr t"
    by (rule r [THEN conjunct2, THEN conjunct2, THEN conjunct2, THEN iffD2])
      (simp add: dict_get_def ranges_to_weight_table_def)
  from a b c d show ?thesis by (intro conjI)
qed

text \<open>
  Malformed values are not replaced by defaults. \<^verbatim>\<open>setParameters\<close> raises for the ranges 5,
  for a range of two items, for the order \<open>3.0\<close> and, when the editor has a reference, for
  the scaling \<^verbatim>\<open>None\<close>; \<^verbatim>\<open>parameters()\<close> raises after the positions \<^verbatim>\<open>None\<close> were set;
  \<^verbatim>\<open>_compute_weights\<close> raises for the ranges 5.
\<close>

theorem malformed_values_raise_counterexample:
  "fst (setParameters qt_controls EMSCEditor_init [(''ranges'', PInt 5)]) = Inl TypeError
   \<and> fst (setParameters qt_controls EMSCEditor_init
            [(''ranges'', PList [PList [PInt 1, PInt 2]])]) = Inl ValueError
   \<and> fst (setParameters qt_controls EMSCEditor_init [(''order'', PFloat 3)]) = Inl TypeError
   \<and> fst (setParameters qt_controls
            (snd (set_reference_data qt_controls (Some [PTuple [PFloat 1]]) EMSCEditor_init))
            [(''scaling'', PNone)]) = Inl TypeError
   \<and> parameters (snd (setParameters qt_controls EMSCEditor_init
        [(''ranges'', PList [PList [PNone, PNone, PFloat 1]])])) = Inl TypeError
   \<and> compute_weights ranges_to_weight_table [(''ranges'', PInt 5)] = Inl TypeError"
  by (simp add: editor_eval compute_weights_def ranges_to_weight_table_def
        set_reference_data_def)

section \<open>The round trip through \<^verbatim>\<open>setParameters\<close> and \<^verbatim>\<open>parameters\<close>\<close>

lemma setParameters_wellformed:
  assumes acc: "spin_setValue g (dict_get params ''order'' ORDER_DEFAULT) = None"
      "checkBox_setState g (dict_get params ''scaling'' SCALING_DEFAULT) = None"
      "checkBox_setState g (dict_get params ''output_model'' OUTPUT_MODEL_DEFAULT) = None"
    and it: "py_iter (dict_get params ''ranges'' (PList [])) = Inr rs"
    and ok: "\<forall>r \<in> set rs. \<exists>t. unpack3 r = Inr t"
  shows "ranges_box (snd (setParameters g s params))
           = map (\<lambda>r. (fst (projr (unpack3 r)), fst (snd (projr (unpack3 r))))) rs
             @ drop (length rs) (ranges_box s)"
proof -
  obtain t where t: "ranges_box t = ranges_box s"
    and eq: "setParameters g s params
               = and_then (set_range_parameters t params) (update_reference_info g)"
    using setParameters_accepted [OF acc, of s] by blast
  have rb: "ranges_box (snd (setParameters g s params))
              = ranges_box (snd (set_range_parameters t params))"
    by (simp only: eq ranges_then_info_keeps)
  have "length (ranges_box t) = max (length (ranges_box t)) 0" by simp
  from set_range_loop_ok [OF ok this]
  have "set_range_parameters t params =
          (Inr (), t\<lparr>ranges_box := take 0 (ranges_box t)
              @ map (\<lambda>r. (fst (projr (unpack3 r)), fst (snd (projr (unpack3 r))))) rs
              @ drop (0 + length rs) (ranges_box t)\<rparr>)"
    by (simp only: set_range_parameters_iter [OF it])
  with t rb show ?thesis by simp
qed

lemma float_triples_unchanged:
  assumes "list_all2 (\<lambda>r t. \<exists>a b w x y. unpack3 r = Inr (a, b, w) \<and> py_float a = Inr x
                 \<and> py_float b = Inr y \<and> t = PList [PFloat x, PFloat y, PFloat 1]) rs ts"
    and "\<forall>r \<in> set rs. \<exists>x y. r = PList [PFloat x, PFloat y, PFloat 1]"
  shows "ts = rs"
  using assms
proof (induction rs ts rule: list_all2_induct)
  case Nil
  show ?case by simp
next
  case (Cons r rs t ts)
  from Cons.prems obtain x y where r: "r = PList [PFloat x, PFloat y, PFloat 1]" by auto
  with Cons.hyps(1) have "t = r" by (auto simp: unpack3_def)
  moreover from Cons.IH Cons.prems have "ts = rs" by simp
  ultimately show ?case by simp
qed

text \<open>
  Claim C1, amended. Let the controls accept the order, the scaling and the output model
  of \<open>params\<close> (the class defaults for absent keys), let \<^verbatim>\<open>setVisible\<close> accept the scaling
  if the editor has a reference that is not empty, let the editor have no more range
  lines than \<open>params\<close> supplies ranges (as a newly constructed editor has), and let each
  supplied range unpack to \<open>(min, max, weight)\<close> with values that \<^verbatim>\<open>float\<close> accepts for min
  and max. Then \<^verbatim>\<open>setParameters(params)\<close> returns and the following \<^verbatim>\<open>parameters()\<close>
  returns the mapping with \<^verbatim>\<open>order\<close>, \<^verbatim>\<open>scaling\<close> and \<^verbatim>\<open>output_model\<close> of \<open>params\<close> (the class
  defaults for absent keys) and with one triple \<^verbatim>\<open>[float(min), float(max), 1.0]\<close> per
  supplied range, in the order of the supplied ranges. These triples are the supplied
  ranges themselves when each supplied range is a list of two floats and the weight
  \<^verbatim>\<open>1.0\<close>.
\<close>

theorem roundtrip_on_short_editor:
  assumes acc: "spin_setValue g (dict_get params ''order'' (PInt 2)) = None"
      "checkBox_setState g (dict_get params ''scaling'' (PBool True)) = None"
      "checkBox_setState g (dict_get params ''output_model'' (PBool False)) = None"
    and vis: "reference s = None \<or> reference s = Some []
        \<or> (\<exists>b. curve_setVisible g (dict_get params ''scaling'' (PBool True)) = Inr b)"
    and it: "py_iter (dict_get params ''ranges'' (PList [])) = Inr rs"
    and conv: "list_all2 (\<lambda>r t. \<exists>a b w x y. unpack3 r = Inr (a, b, w) \<and> py_float a = Inr x
                 \<and> py_float b = Inr y \<and> t = PList [PFloat x, PFloat y, PFloat 1]) rs ts"
    and short: "length (ranges_box s) \<le> length rs"
  shows "fst (setParameters g s params) = Inr ()
     \<and> parameters (snd (setParameters g s params)) =
         Inr [(''order'', dict_get params ''order'' (PInt 2)),
              (''scaling'', dict_get params ''scaling'' (PBool True)),
              (''output_model'', dict_get params ''output_model'' (PBool False)),
              (''ranges'', PList ts)]
     \<and> ((\<forall>r \<in> set rs. \<exists>x y. r = PList [PFloat x, PFloat y, PFloat 1]) \<longrightarrow> ts = rs)"
proof (intro conjI impI)
  let ?f = "\<lambda>r. (fst (projr (unpack3 r)), fst (snd (projr (unpack3 r))))"
  let ?s' = "snd (setParameters g s params)"
  note acc' = acc [folded ORDER_DEFAULT_def SCALING_DEFAULT_def OUTPUT_MODEL_DEFAULT_def]
  from conv have ok: "\<forall>r \<in> set rs. \<exists>a b w. unpack3 r = Inr (a, b, w)"
    by (induction rs ts rule: list_all2_induct) auto
  then have ok': "\<forall>r \<in> set rs. \<exists>t. unpack3 r = Inr t" by blast
  show "fst (setParameters g s params) = Inr ()"
    unfolding setParameters_returns
    using acc' vis [folded SCALING_DEFAULT_def] it ok by blast
  from setParameters_wellformed [OF acc' it ok', of s] short
  have rb: "ranges_box ?s' = map ?f rs"
    by simp
  have "list_all2 (\<lambda>r t. range_triple (?f r) = Inr t) rs ts"
    using conv by (rule list_all2_mono) (auto simp: range_triple_def)
  then have "range_triples (ranges_box ?s') = Inr ts"
    by (simp add: rb range_triples_iff list_all2_map1)
  then have "parameters ?s' = Inr (dict_set (base_parameters ?s') ''ranges'' (PList ts))"
    by (simp add: parameters_def)
  then show "parameters ?s' =
         Inr [(''order'', dict_get params ''order'' (PInt 2)),
              (''scaling'', dict_get params ''scaling'' (PBool True)),
              (''output_model'', dict_get params ''output_model'' (PBool False)),
              (''ranges'', PList ts)]"
    using acc'
    by (simp add: base_parameters_def setParameters_fields ORDER_DEFAULT_def
          SCALING_DEFAULT_def OUTPUT_MODEL_DEFAULT_def)
next
  assume "\<forall>r \<in> set rs. \<exists>x y. r = PList [PFloat x, PFloat y, PFloat 1]"
  with conv show "ts = rs" by (rule float_triples_unchanged)
qed

theorem roundtrip_on_short_editor_witness:
  "fst (setParameters qt_controls EMSCEditor_init
      [(''order'', PInt 3), (''scaling'', PBool False), (''output_model'', PBool True),
       (''ranges'', PList [PList [PFloat 1, PFloat 2, PFloat 1]])]) = Inr ()
   \<and> parameters (snd (setParameters qt_controls EMSCEditor_init
      [(''order'', PInt 3), (''scaling'', PBool False), (''output_model'', PBool True),
       (''ranges'', PList [PList [PFloat 1, PFloat 2, PFloat 1]])]))
     = Inr [(''order'', PInt 3), (''scaling'', PBool False), (''output_model'', PBool True),
            (''ranges'', PList [PList [PFloat 1, PFloat 2, PFloat 1]])]"
proof -
  let ?p = "[(''order'', PInt 3), (''scaling'', PBool False), (''output_model'', PBool True),
       (''ranges'', PList [PList [PFloat 1, PFloat 2, PFloat 1]])]"
  have acc: "spin_setValue qt_controls (dict_get ?p ''order'' (PInt 2)) = None"
    "checkBox_setState qt_controls (dict_get ?p ''scaling'' (PBool True)) = None"
    "checkBox_setState qt_controls (dict_get ?p ''output_model'' (PBool False)) = None"
    by (simp_all add: dict_get_def qt_controls_def)
  have vis: "reference EMSCEditor_init = None \<or> reference EMSCEditor_init = Some []
      \<or> (\<exists>b. curve_setVisible qt_controls (dict_get ?p ''scaling'' (PBool True)) = Inr b)"
    by (simp add: EMSCEditor_init_def)
  have it: "py_iter (dict_get ?p ''ranges'' (PList [])) = Inr [PList [PFloat 1, PFloat 2, PFloat 1]]"
    by (simp add: dict_get_def)
  have "unpack3 (PList [PFloat 1, PFloat 2, PFloat 1]) = Inr (PFloat 1, PFloat 2, PFloat 1)
     \<and> py_float (PFloat 1) = Inr 1 \<and> py_float (PFloat 2) = Inr 2
     \<and> PList [PFloat 1, PFloat 2, PFloat 1] = PList [PFloat 1, PFloat 2, PFloat 1]"
    by (simp add: unpack3_def)
  then have "\<exists>a b w x y. unpack3 (PList [PFloat 1, PFloat 2, PFloat 1]) = Inr (a, b, w)
     \<and> py_float a = Inr x \<and> py_float b = Inr y
     \<and> PList [PFloat 1, PFloat 2, PFloat 1] = PList [PFloat x, PFloat y, PFloat 1]"
    by blast
  then have conv: "list_all2
      (\<lambda>r t. \<exists>a b w x y. unpack3 r = Inr (a, b, w) \<and> py_float a = Inr x
                 \<and> py_float b = Inr y \<and> t = PList [PFloat x, PFloat y, PFloat 1])
      [PList [PFloat 1, PFloat 2, PFloat 1]] [PList [PFloat 1, PFloat 2, PFloat 1]]"
    by (simp only: list_all2_Cons list_all2_Nil simp_thms)
  have short: "length (ranges_box EMSCEditor_init) \<le> length [PList [PFloat 1, PFloat 2, PFloat 1]]"
    by (simp add: EMSCEditor_init_def)
  note r = roundtrip_on_short_editor [OF acc vis it conv short]
  from r [THEN conjunct1] r [THEN conjunct2, THEN conjunct1] show ?thesis
    by (simp add: dict_get_def)
qed

text \<open>
  A line that the editor already has is not removed by the empty list of ranges, and the
  weight 5 comes back as 1.
\<close>

theorem roundtrip_counterexample:
  "parameters (snd (setParameters qt_controls
      (snd (setParameters qt_controls EMSCEditor_init
              [(''ranges'', PList [PList [PFloat 1, PFloat 2, PFloat 1]])]))
      [(''order'', PInt 2), (''scaling'', PBool True), (''output_model'', PBool False),
       (''ranges'', PList [])]))
     = Inr [(''order'', PInt 2), (''scaling'', PBool True), (''output_model'', PBool False),
            (''ranges'', PList [PList [PFloat 1, PFloat 2, PFloat 1]])]
   \<and> PList [PList [PFloat 1, PFloat 2, PFloat 1]] \<noteq> PList []
   \<and> parameters (snd (setParameters qt_controls EMSCEditor_init
      [(''order'', PInt 2), (''scaling'', PBool True), (''output_model'', PBool False),
       (''ranges'', PList [PList [PFloat 1, PFloat 2, PFloat 5]])]))
     = Inr [(''order'', PInt 2), (''scaling'', PBool True), (''output_model'', PBool False),
            (''ranges'', PList [PList [PFloat 1, PFloat 2, PFloat 1]])]
   \<and> PList [PList [PFloat 1, PFloat 2, PFloat 1]] \<noteq> PList [PList [PFloat 1, PFloat 2, PFloat 5]]"
  by (simp add: editor_eval)

end
